theory Spec2Isabelle
  imports Complex_Main
begin

section \<open>Lease records and the record store\<close>

text \<open>
  Times are JavaScript \<^verbatim>\<open>Date\<close> values, read as milliseconds since the epoch
  (\<^verbatim>\<open>getTime()\<close>). Strings are lists of characters; one \<^typ>\<open>char\<close> stands for one
  unit of a JavaScript string, so \<^const>\<open>length\<close> is \<^verbatim>\<open>.length\<close>.
\<close>

type_synonym time = int

record metadata =
  clientIp :: "string option"
  userAgent :: "string option"
  sessionId :: string
  purpose :: string

text \<open>
  One document of the \<^verbatim>\<open>ResourceLock\<close> collection, with the fields the route
  handlers read and write. \<open>oid\<close> is the document's \<^verbatim>\<open>_id\<close>.
\<close>

record resource_lock =
  oid :: nat
  resourceName :: string
  lockedBy :: string
  lockType :: string
  lockedAt :: time
  expiresAt :: time
  lockDuration :: int
  metadata :: metadata

text \<open>The collection, in insertion order.\<close>

type_synonym store = "resource_lock list"

subsection \<open>The store's primitives\<close>

text \<open>
  The Mongoose calls the handlers make, over the collection as a list:
  \<^verbatim>\<open>findOne\<close> returns the first document matching the query, \<^verbatim>\<open>deleteOne\<close>
  removes the first match and reports \<^verbatim>\<open>deletedCount\<close>, \<^verbatim>\<open>deleteMany\<close> removes
  every match, \<^verbatim>\<open>countDocuments\<close> counts the matches.
\<close>

fun findOne :: "('a \<Rightarrow> bool) \<Rightarrow> 'a list \<Rightarrow> 'a option" where
  "findOne q [] = None"
| "findOne q (d # ds) = (if q d then Some d else findOne q ds)"

fun deleteOne :: "('a \<Rightarrow> bool) \<Rightarrow> 'a list \<Rightarrow> 'a list \<times> nat" where
  "deleteOne q [] = ([], 0)"
| "deleteOne q (d # ds) =
     (if q d then (ds, 1) else (d # fst (deleteOne q ds), snd (deleteOne q ds)))"

definition deleteMany :: "('a \<Rightarrow> bool) \<Rightarrow> 'a list \<Rightarrow> 'a list \<times> nat" where
  "deleteMany q s = (filter (\<lambda>d. \<not> q d) s, length (filter q s))"

definition countDocuments :: "('a \<Rightarrow> bool) \<Rightarrow> 'a list \<Rightarrow> nat" where
  "countDocuments q s = length (filter q s)"

text \<open>An error thrown by a store call; \<open>err_code\<close> is \<^verbatim>\<open>error.code\<close>.\<close>

datatype store_error = StoreError (err_code: int) (err_message: string)

definition duplicate_key :: store_error where
  "duplicate_key = StoreError 11000 ''E11000 duplicate key error''"

text \<open>
  Modelled from the spec: the schema of \<^verbatim>\<open>models/ResourceLock\<close> is not among the
  sources. The spec gives the store an atomic insert-if-absent keyed on the resource
  name (section 4.1); the handler's test \<^verbatim>\<open>error.code === 11000\<close> names MongoDB's
  duplicate-key error. \<^verbatim>\<open>save\<close> of a new document therefore rejects a document
  whose resource name (or \<^verbatim>\<open>_id\<close>, unique in every collection) is already
  stored, expired or not, and appends it otherwise.
\<close>

definition save :: "resource_lock \<Rightarrow> store \<Rightarrow> store_error + store" where
  "save d s =
     (if list_ex (\<lambda>x. resourceName x = resourceName d \<or> oid x = oid d) s
      then Inl duplicate_key
      else Inr (s @ [d]))"

text \<open>\<^verbatim>\<open>save\<close> of a document read from the store writes it back in place.\<close>

definition save_existing :: "resource_lock \<Rightarrow> store \<Rightarrow> store" where
  "save_existing d s = map (\<lambda>x. if oid x = oid d then d else x) s"

subsection \<open>The model's statics, methods and virtuals\<close>

text \<open>
  Modelled from the spec: \<^verbatim>\<open>ResourceLock.getLockInfo\<close> is not among the sources.
  Section 4.2: every read path, \<^verbatim>\<open>GetStatus\<close> and the acquisition pre-check
  included, restricts to leases where \<^verbatim>\<open>expiresAt > now\<close>.
\<close>

definition getLockInfo :: "time \<Rightarrow> string \<Rightarrow> store \<Rightarrow> resource_lock option" where
  "getLockInfo now name s = findOne (\<lambda>d. resourceName d = name \<and> now < expiresAt d) s"

text \<open>
  Modelled from the spec: the virtuals \<^verbatim>\<open>remainingTime\<close> and \<^verbatim>\<open>isExpired\<close> are
  not among the sources. Section 3: \<^verbatim>\<open>remainingTimeSeconds = max(0, expiresAt - now)\<close>
  and \<^verbatim>\<open>isExpired = now >= expiresAt\<close>. The spec fixes no rounding, so the
  remaining time is the exact number of seconds.
\<close>

definition remainingTime :: "time \<Rightarrow> resource_lock \<Rightarrow> rat" where
  "remainingTime now d = max 0 (of_int (expiresAt d - now) / 1000)"

definition isExpired :: "time \<Rightarrow> resource_lock \<Rightarrow> bool" where
  "isExpired now d = (expiresAt d \<le> now)"

text \<open>
  Modelled from the spec: the method \<^verbatim>\<open>extendLock\<close> is not among the sources.
  Section 4.1: on success \<^verbatim>\<open>expiresAt += additionalSeconds\<close>, with no ceiling, as
  a persisted update of the existing record.
\<close>

definition extendLock :: "int \<Rightarrow> resource_lock \<Rightarrow> resource_lock" where
  "extendLock additionalSeconds d = d\<lparr>expiresAt := expiresAt d + additionalSeconds * 1000\<rparr>"

section \<open>Responses\<close>

record lock_view =
  view_resourceName :: string
  view_lockedBy :: string
  view_lockType :: string
  view_lockedAt :: time
  view_expiresAt :: time
  view_remainingTime :: rat
  view_isExpired :: bool
  view_metadata :: metadata

record pagination =
  currentPage :: int
  totalPages :: "int option"
  totalResources :: nat
  hasNext :: bool
  hasPrev :: bool

text \<open>
  The \<^verbatim>\<open>data\<close>, \<^verbatim>\<open>errors\<close> or \<^verbatim>\<open>error\<close> member of a response body. The arguments
  are the members of the object in the order the handler writes them.
\<close>

datatype payload =
    NoData
  | Errors "string list"
  | ErrorText string
  | Holder string string time rat
  | Created string string string time time rat nat
  | Available string
  | Locked string string string time time rat int metadata
  | Unlocked string string time
  | Extended string time rat int
  | ForceUnlocked string time
  | Listing "lock_view list" pagination

record response =
  status :: nat
  success :: bool
  message :: "string option"
  payload :: payload

section \<open>Request validation\<close>

text \<open>
  A request body as the JSON parser hands it over: each known member is absent
  (\<open>None\<close>, JavaScript's \<^verbatim>\<open>undefined\<close>) or present with the JSON type its schema
  names. A JSON number is a finite decimal, so a rational. Bodies with members of
  another JSON type, or with unknown members, are outside the model.
\<close>

record lock_body =
  body_resourceName :: "string option"
  body_lockedBy :: "string option"
  body_lockDuration :: "rat option"
  body_lockType :: "string option"
  body_purpose :: "string option"
  body_sessionId :: "string option"

text \<open>
  The value a schema returns, which the middleware stores back into \<^verbatim>\<open>req.body\<close>.
  The members the schema requires are present in it; the others stay optional, since
  the handler destructures them with defaults of its own.
\<close>

record lock_request =
  req_resourceName :: string
  req_lockedBy :: string
  req_lockDuration :: "int option"
  req_lockType :: "string option"
  req_purpose :: "string option"
  req_sessionId :: "string option"

record unlock_body =
  ubody_resourceName :: "string option"
  ubody_lockedBy :: "string option"

record unlock_request =
  ureq_resourceName :: string
  ureq_lockedBy :: string

text \<open>The characters of the class \<^verbatim>\<open>[a-zA-Z0-9._-]\<close>.\<close>

definition allowed_chars :: string where
  "allowed_chars =
     ''abcdefghijklmnopqrstuvwxyzABCDEFGHIJKLMNOPQRSTUVWXYZ0123456789._-''"

text \<open>\<^verbatim>\<open>/^[a-zA-Z0-9._-]+$/\<close> matches a string: one or more characters, each of the class.\<close>

definition pattern_test :: "string \<Rightarrow> bool" where
  "pattern_test x = (x \<noteq> [] \<and> list_all (\<lambda>c. c \<in> set allowed_chars) x)"

text \<open>
  Joi's checks, in Joi's order, with its default preferences (\<^verbatim>\<open>abortEarly\<close>: the
  first failing check of the first failing key is the only error): a required key must
  be present; a string must not be empty; then the rules as the schema chains them.
  The messages are Joi's English templates, but for the pattern of the lock schema,
  whose message the source overrides.
\<close>

definition resourceName_pattern_message :: string where
  "resourceName_pattern_message =
     ''Resource name can only contain alphanumeric characters, dots, hyphens, and underscores''"

definition default_pattern_message :: "string \<Rightarrow> string" where
  \<open>default_pattern_message x =
     ''"resourceName" with value "'' @ x @
     ''" fails to match the required pattern: /^[a-zA-Z0-9._-]+$/''\<close>

definition resourceName_rule :: "(string \<Rightarrow> string) \<Rightarrow> string option \<Rightarrow> string + string" where
  \<open>resourceName_rule pattern_message v =
     (case v of
        None \<Rightarrow> Inl ''"resourceName" is required''
      | Some x \<Rightarrow>
          if x = [] then Inl ''"resourceName" is not allowed to be empty''
          else if length x < 1 then Inl ''"resourceName" length must be at least 1 characters long''
          else if 255 < length x
            then Inl ''"resourceName" length must be less than or equal to 255 characters long''
          else if \<not> pattern_test x then Inl (pattern_message x)
          else Inr x)\<close>

definition lockedBy_rule :: "string option \<Rightarrow> string + string" where
  \<open>lockedBy_rule v =
     (case v of
        None \<Rightarrow> Inl ''"lockedBy" is required''
      | Some x \<Rightarrow>
          if x = [] then Inl ''"lockedBy" is not allowed to be empty''
          else if length x < 1 then Inl ''"lockedBy" length must be at least 1 characters long''
          else if 100 < length x
            then Inl ''"lockedBy" length must be less than or equal to 100 characters long''
          else Inr x)\<close>

definition lockDuration_rule :: "rat option \<Rightarrow> string + int" where
  \<open>lockDuration_rule v =
     (case v of
        None \<Rightarrow> Inr 300
      | Some q \<Rightarrow>
          if q < - 9007199254740991 \<or> 9007199254740991 < q
            then Inl ''"lockDuration" must be a safe number''
          else if of_int \<lfloor>q\<rfloor> \<noteq> q then Inl ''"lockDuration" must be an integer''
          else if q < 1 then Inl ''"lockDuration" must be greater than or equal to 1''
          else if 86400 < q then Inl ''"lockDuration" must be less than or equal to 86400''
          else Inr \<lfloor>q\<rfloor>)\<close>

definition lockType_rule :: "string option \<Rightarrow> string + string" where
  \<open>lockType_rule v =
     (case v of
        None \<Rightarrow> Inr ''exclusive''
      | Some x \<Rightarrow>
          if x \<in> set [''read'', ''write'', ''exclusive''] then Inr x
          else Inl ''"lockType" must be one of [read, write, exclusive]'')\<close>

definition purpose_rule :: "string option \<Rightarrow> string + string" where
  \<open>purpose_rule v =
     (case v of
        None \<Rightarrow> Inr []
      | Some x \<Rightarrow>
          if x = [] then Inl ''"purpose" is not allowed to be empty''
          else if 255 < length x
            then Inl ''"purpose" length must be less than or equal to 255 characters long''
          else Inr x)\<close>

definition sessionId_rule :: "string option \<Rightarrow> string + string" where
  \<open>sessionId_rule v =
     (case v of
        None \<Rightarrow> Inr []
      | Some x \<Rightarrow>
          if x = [] then Inl ''"sessionId" is not allowed to be empty''
          else if 100 < length x
            then Inl ''"sessionId" length must be less than or equal to 100 characters long''
          else Inr x)\<close>

text \<open>\<^verbatim>\<open>lockRequestSchema.validate(req.body)\<close>: the error's detail messages, or the value.\<close>

definition lockRequestSchema :: "lock_body \<Rightarrow> string list + lock_request" where
  "lockRequestSchema b =
     (case resourceName_rule (\<lambda>x. resourceName_pattern_message) (body_resourceName b) of
        Inl m \<Rightarrow> Inl [m]
      | Inr name \<Rightarrow>
     (case lockedBy_rule (body_lockedBy b) of
        Inl m \<Rightarrow> Inl [m]
      | Inr owner \<Rightarrow>
     (case lockDuration_rule (body_lockDuration b) of
        Inl m \<Rightarrow> Inl [m]
      | Inr duration \<Rightarrow>
     (case lockType_rule (body_lockType b) of
        Inl m \<Rightarrow> Inl [m]
      | Inr type \<Rightarrow>
     (case purpose_rule (body_purpose b) of
        Inl m \<Rightarrow> Inl [m]
      | Inr why \<Rightarrow>
     (case sessionId_rule (body_sessionId b) of
        Inl m \<Rightarrow> Inl [m]
      | Inr session \<Rightarrow>
          Inr \<lparr>req_resourceName = name, req_lockedBy = owner,
               req_lockDuration = Some duration, req_lockType = Some type,
               req_purpose = Some why, req_sessionId = Some session\<rparr>))))))"

definition unlockRequestSchema :: "unlock_body \<Rightarrow> string list + unlock_request" where
  "unlockRequestSchema b =
     (case resourceName_rule default_pattern_message (ubody_resourceName b) of
        Inl m \<Rightarrow> Inl [m]
      | Inr name \<Rightarrow>
     (case lockedBy_rule (ubody_lockedBy b) of
        Inl m \<Rightarrow> Inl [m]
      | Inr owner \<Rightarrow> Inr \<lparr>ureq_resourceName = name, ureq_lockedBy = owner\<rparr>))"

definition validation_error :: "string list \<Rightarrow> response" where
  "validation_error details =
     \<lparr>status = 400, success = False, message = Some ''Validation error'',
      payload = Errors details\<rparr>"

text \<open>
  The two middlewares: \<open>Inl\<close> is the response sent without calling \<^verbatim>\<open>next()\<close>,
  \<open>Inr\<close> the body the handler then reads.
\<close>

definition validateLockRequest :: "lock_body \<Rightarrow> response + lock_request" where
  "validateLockRequest b =
     (case lockRequestSchema b of
        Inl details \<Rightarrow> Inl (validation_error details)
      | Inr v \<Rightarrow> Inr v)"

definition validateUnlockRequest :: "unlock_body \<Rightarrow> response + unlock_request" where
  "validateUnlockRequest b =
     (case unlockRequestSchema b of
        Inl details \<Rightarrow> Inl (validation_error details)
      | Inr v \<Rightarrow> Inr v)"

section \<open>The route handlers\<close>

text \<open>
  Every handler takes the clock reading \<open>now\<close> (\<^verbatim>\<open>new Date()\<close>, \<^verbatim>\<open>Date.now()\<close>;
  one reading per request) and the collection, and returns the collection it leaves
  and the response it sends. Store calls do not fail in the model but for the
  duplicate key of \<^const>\<open>save\<close> and a negative skip; the handlers' \<^verbatim>\<open>catch\<close>
  branches are modelled where such an error, or one thrown by the handler's own code,
  reaches them.
\<close>

subsection \<open>\<^verbatim>\<open>GET /\<close>\<close>

text \<open>
  The query string, with \<^verbatim>\<open>page\<close> and \<^verbatim>\<open>limit\<close> read as the integers they denote
  (1 and 20 when absent).
\<close>

record list_query =
  query_page :: int
  query_limit :: int
  query_lockedBy :: "string option"
  query_lockType :: "string option"

text \<open>
  The query object. \<open>rx pattern\<close> stands for \<^verbatim>\<open>new RegExp(pattern, 'i')\<close>: the
  message of the \<^verbatim>\<open>SyntaxError\<close> the constructor throws on an invalid pattern
  (\<open>Inl\<close>), or the expression, read as the test the store applies to the field
  (\<open>Inr\<close>). An absent or empty parameter is falsy and adds no condition.
\<close>

definition list_filter ::
  "(string \<Rightarrow> bool) option \<Rightarrow> time \<Rightarrow> list_query \<Rightarrow> resource_lock \<Rightarrow> bool" where
  "list_filter matcher now q d =
     (now < expiresAt d \<and>
      (case matcher of
         None \<Rightarrow> True
       | Some test \<Rightarrow> test (lockedBy d)) \<and>
      (case query_lockType q of
         None \<Rightarrow> True
       | Some t \<Rightarrow> t = [] \<or> lockType d = t))"

definition list_query_object ::
  "(string \<Rightarrow> string + (string \<Rightarrow> bool)) \<Rightarrow> time \<Rightarrow> list_query \<Rightarrow>
     string + (resource_lock \<Rightarrow> bool)" where
  "list_query_object rx now q =
     (case query_lockedBy q of
        None \<Rightarrow> Inr (list_filter None now q)
      | Some p \<Rightarrow>
          if p = [] then Inr (list_filter None now q)
          else
            (case rx p of
               Inl thrown \<Rightarrow> Inl thrown
             | Inr test \<Rightarrow> Inr (list_filter (Some test) now q)))"

definition lock_status :: "time \<Rightarrow> resource_lock \<Rightarrow> lock_view" where
  "lock_status now d =
     \<lparr>view_resourceName = resourceName d, view_lockedBy = lockedBy d,
      view_lockType = lockType d, view_lockedAt = lockedAt d,
      view_expiresAt = expiresAt d, view_remainingTime = remainingTime now d,
      view_isExpired = isExpired now d, view_metadata = metadata d\<rparr>"

text \<open>
  \<^verbatim>\<open>find(query).sort({ lockedAt: -1 }).limit(limit * 1).skip((page - 1) * limit)\<close>:
  newest first (documents locked at the same instant stay in insertion order), then
  the window. The driver refuses a negative skip, takes a limit of 0 as no limit and
  a negative limit by its absolute value.
\<close>

definition find_page :: "(resource_lock \<Rightarrow> bool) \<Rightarrow> int \<Rightarrow> int \<Rightarrow> store \<Rightarrow> store_error + store" where
  "find_page query limit_n skip_n s =
     (if skip_n < 0 then Inl (StoreError 2 ''Skip value must be non-negative'')
      else
        (let rest = drop (nat skip_n) (sort_key (\<lambda>d. - lockedAt d) (filter query s))
         in Inr (if limit_n = 0 then rest else take (nat \<bar>limit_n\<bar>) rest)))"

definition list_pagination :: "list_query \<Rightarrow> nat \<Rightarrow> pagination" where
  "list_pagination q n_total =
     \<lparr>currentPage = query_page q,
      totalPages =
        (if query_limit q = 0 then None
         else Some \<lceil>(of_nat n_total :: rat) / of_int (query_limit q)\<rceil>),
      totalResources = n_total,
      hasNext = (query_page q * query_limit q < int n_total),
      hasPrev = (1 < query_page q)\<rparr>"

text \<open>
  The handler: an error thrown while the query is built or run is caught and
  answered with 500.
\<close>

definition get_resources ::
  "(string \<Rightarrow> string + (string \<Rightarrow> bool)) \<Rightarrow> time \<Rightarrow> list_query \<Rightarrow> store \<Rightarrow> response" where
  "get_resources rx now q s =
     (case list_query_object rx now q of
        Inl thrown \<Rightarrow>
          \<lparr>status = 500, success = False, message = Some ''Error fetching resources'',
           payload = ErrorText thrown\<rparr>
      | Inr query \<Rightarrow>
          (case find_page query (query_limit q * 1)
                  ((query_page q - 1) * query_limit q) s of
             Inl e \<Rightarrow>
               \<lparr>status = 500, success = False,
                message = Some ''Error fetching resources'',
                payload = ErrorText (err_message e)\<rparr>
           | Inr locks \<Rightarrow>
               \<lparr>status = 200, success = True, message = None,
                payload = Listing (map (lock_status now) locks)
                  (list_pagination q (countDocuments query s))\<rparr>))"

subsection \<open>\<^verbatim>\<open>GET /:resourceName\<close>\<close>

definition available :: "string \<Rightarrow> response" where
  "available name =
     \<lparr>status = 200, success = True, message = None, payload = Available name\<rparr>"

definition get_resource :: "time \<Rightarrow> string \<Rightarrow> store \<Rightarrow> response" where
  "get_resource now name s =
     (case getLockInfo now name s of
        None \<Rightarrow> available name
      | Some d \<Rightarrow>
          \<lparr>status = 200, success = True, message = None,
           payload = Locked (resourceName d) (lockedBy d) (lockType d) (lockedAt d)
             (expiresAt d) (remainingTime now d) (lockDuration d) (metadata d)\<rparr>)"

subsection \<open>\<^verbatim>\<open>POST /lock\<close>\<close>

text \<open>
  What the handler reads of the request besides its body, and the \<^verbatim>\<open>_id\<close> that
  \<^verbatim>\<open>new ResourceLock\<close> gives the document.
\<close>

record client =
  client_ip :: "string option"
  client_userAgent :: "string option"
  fresh_oid :: nat

text \<open>
  The document the handler builds, with the destructuring defaults. Modelled from the
  spec: the schema default of \<^verbatim>\<open>lockedAt\<close> is not among the sources; section 3 has
  \<^verbatim>\<open>expiresAt = acquiredAt + requestedDurationSeconds\<close>, so \<^verbatim>\<open>lockedAt\<close> is the
  instant of the request.
\<close>

definition new_lock :: "time \<Rightarrow> client \<Rightarrow> lock_request \<Rightarrow> resource_lock" where
  "new_lock now c r =
     (let duration = (case req_lockDuration r of None \<Rightarrow> 300 | Some n \<Rightarrow> n);
          type = (case req_lockType r of None \<Rightarrow> ''exclusive'' | Some t \<Rightarrow> t);
          why = (case req_purpose r of None \<Rightarrow> [] | Some p \<Rightarrow> p);
          session = (case req_sessionId r of None \<Rightarrow> [] | Some i \<Rightarrow> i)
      in \<lparr>oid = fresh_oid c, resourceName = req_resourceName r,
          lockedBy = req_lockedBy r, lockType = type, lockedAt = now,
          expiresAt = now + duration * 1000, lockDuration = duration,
          metadata = \<lparr>clientIp = client_ip c, userAgent = client_userAgent c,
                      sessionId = session, purpose = why\<rparr>\<rparr>)"

definition already_locked :: "time \<Rightarrow> resource_lock \<Rightarrow> response" where
  "already_locked now d =
     \<lparr>status = 409, success = False, message = Some ''Resource is already locked'',
      payload = Holder (resourceName d) (lockedBy d) (expiresAt d) (remainingTime now d)\<rparr>"

definition locked_by_another_process :: response where
  "locked_by_another_process =
     \<lparr>status = 409, success = False,
      message = Some ''Resource is already locked by another process'', payload = NoData\<rparr>"

text \<open>The handler from the construction of the document on: the insert and the \<^verbatim>\<open>catch\<close>.\<close>

definition lock_insert :: "time \<Rightarrow> client \<Rightarrow> lock_request \<Rightarrow> store \<Rightarrow> store \<times> response" where
  "lock_insert now c r s =
     (let newLock = new_lock now c r
      in case save newLock s of
           Inr s' \<Rightarrow>
             (s', \<lparr>status = 201, success = True,
                   message = Some ''Resource locked successfully'',
                   payload = Created (resourceName newLock) (lockedBy newLock)
                     (lockType newLock) (lockedAt newLock) (expiresAt newLock)
                     (remainingTime now newLock) (oid newLock)\<rparr>)
         | Inl e \<Rightarrow>
             (s, if err_code e = 11000 then locked_by_another_process
                 else \<lparr>status = 500, success = False,
                       message = Some ''Error locking resource'',
                       payload = ErrorText (err_message e)\<rparr>))"

text \<open>
  The handler. It suspends at \<^verbatim>\<open>await getLockInfo\<close>, where other requests are
  served before it goes on: \<open>others\<close> is what they do to the collection between the
  pre-check and the insert.
\<close>

definition lock_handler ::
  "(store \<Rightarrow> store) \<Rightarrow> time \<Rightarrow> client \<Rightarrow> lock_request \<Rightarrow> store \<Rightarrow> store \<times> response" where
  "lock_handler others now c r s =
     (case getLockInfo now (req_resourceName r) s of
        Some existingLock \<Rightarrow> (s, already_locked now existingLock)
      | None \<Rightarrow> lock_insert now c r (others s))"

text \<open>The route: the validation middleware, then the handler.\<close>

definition post_lock_racing ::
  "(store \<Rightarrow> store) \<Rightarrow> time \<Rightarrow> client \<Rightarrow> lock_body \<Rightarrow> store \<Rightarrow> store \<times> response" where
  "post_lock_racing others now c b s =
     (case validateLockRequest b of
        Inl rejected \<Rightarrow> (s, rejected)
      | Inr r \<Rightarrow> lock_handler others now c r s)"

text \<open>The route when no other request is served in between.\<close>

definition post_lock :: "time \<Rightarrow> client \<Rightarrow> lock_body \<Rightarrow> store \<Rightarrow> store \<times> response" where
  "post_lock now c b s = post_lock_racing (\<lambda>s. s) now c b s"

subsection \<open>\<^verbatim>\<open>POST /unlock\<close>\<close>

definition unlock_not_found :: response where
  "unlock_not_found =
     \<lparr>status = 404, success = False,
      message = Some ''Lock not found or you are not authorized to unlock this resource'',
      payload = NoData\<rparr>"

definition unlock_handler :: "time \<Rightarrow> unlock_request \<Rightarrow> store \<Rightarrow> store \<times> response" where
  "unlock_handler now r s =
     (case findOne (\<lambda>d. resourceName d = ureq_resourceName r \<and>
                         lockedBy d = ureq_lockedBy r \<and> now < expiresAt d) s of
        None \<Rightarrow> (s, unlock_not_found)
      | Some lock \<Rightarrow>
          (fst (deleteOne (\<lambda>d. oid d = oid lock) s),
           \<lparr>status = 200, success = True,
            message = Some ''Resource unlocked successfully'',
            payload = Unlocked (ureq_resourceName r) (ureq_lockedBy r) now\<rparr>))"

definition post_unlock :: "time \<Rightarrow> unlock_body \<Rightarrow> store \<Rightarrow> store \<times> response" where
  "post_unlock now b s =
     (case validateUnlockRequest b of
        Inl rejected \<Rightarrow> (s, rejected)
      | Inr r \<Rightarrow> unlock_handler now r s)"

subsection \<open>\<^verbatim>\<open>PUT /:resourceName/extend\<close>\<close>

text \<open>
  The route has no validation middleware. The body's \<^verbatim>\<open>lockedBy\<close> is taken as a
  string and \<^verbatim>\<open>additionalSeconds\<close> as a whole number of seconds, or absent.
\<close>

record extend_body =
  ebody_lockedBy :: string
  ebody_additionalSeconds :: "int option"

definition extend_not_found :: response where
  "extend_not_found =
     \<lparr>status = 404, success = False,
      message = Some ''Lock not found or you are not authorized to extend this lock'',
      payload = NoData\<rparr>"

definition put_extend :: "time \<Rightarrow> string \<Rightarrow> extend_body \<Rightarrow> store \<Rightarrow> store \<times> response" where
  "put_extend now name b s =
     (let additionalSeconds =
            (case ebody_additionalSeconds b of None \<Rightarrow> 300 | Some n \<Rightarrow> n)
      in case findOne (\<lambda>d. resourceName d = name \<and> lockedBy d = ebody_lockedBy b \<and>
                           now < expiresAt d) s of
           None \<Rightarrow> (s, extend_not_found)
         | Some lock \<Rightarrow>
             (let lock' = extendLock additionalSeconds lock
              in (save_existing lock' s,
                  \<lparr>status = 200, success = True,
                   message = Some ''Lock extended successfully'',
                   payload = Extended (resourceName lock') (expiresAt lock')
                     (remainingTime now lock') additionalSeconds\<rparr>)))"

subsection \<open>\<^verbatim>\<open>DELETE /:resourceName/force-unlock\<close>\<close>

definition unauthorized :: response where
  "unauthorized =
     \<lparr>status = 403, success = False,
      message = Some ''Unauthorized: Invalid admin key'', payload = NoData\<rparr>"

definition force_unlock_not_found :: response where
  "force_unlock_not_found =
     \<lparr>status = 404, success = False,
      message = Some ''Resource lock not found'', payload = NoData\<rparr>"

text \<open>
  \<open>ADMIN_KEY\<close> is \<^verbatim>\<open>process.env.ADMIN_KEY\<close> and \<open>adminKey\<close> the body's member, each
  a string or \<^verbatim>\<open>undefined\<close> (\<open>None\<close>); \<^verbatim>\<open>!==\<close> compares them strictly.
\<close>

definition delete_force_unlock ::
  "string option \<Rightarrow> time \<Rightarrow> string \<Rightarrow> string option \<Rightarrow> store \<Rightarrow> store \<times> response" where
  "delete_force_unlock ADMIN_KEY now name adminKey s =
     (if adminKey \<noteq> ADMIN_KEY then (s, unauthorized)
      else
        (let result = deleteOne (\<lambda>d. resourceName d = name) s
         in if snd result = 0 then (fst result, force_unlock_not_found)
            else (fst result,
                  \<lparr>status = 200, success = True,
                   message = Some ''Resource force unlocked successfully'',
                   payload = ForceUnlocked name now\<rparr>)))"

section \<open>The expiry sweep\<close>

text \<open>
  The body of the timer callback of \<^verbatim>\<open>app.js\<close>, run every 60000 ms: the collection
  it leaves and the \<^verbatim>\<open>deletedCount\<close> it logs when positive.
\<close>

definition expiry_sweep :: "time \<Rightarrow> store \<Rightarrow> store \<times> nat" where
  "expiry_sweep now s = deleteMany (\<lambda>d. expiresAt d < now) s"

section \<open>Invariants of the collection\<close>

text \<open>The unique indexes: no two documents share a resource name, nor an \<^verbatim>\<open>_id\<close>.\<close>

definition unique_keys :: "store \<Rightarrow> bool" where
  "unique_keys s = (distinct (map resourceName s) \<and> distinct (map oid s))"

section \<open>Reading responses, and the requests of the spec's scenarios\<close>

text \<open>The locks a listing response carries (none when the response is an error).\<close>

definition listed :: "response \<Rightarrow> lock_view list" where
  "listed res = (case payload res of Listing views pages \<Rightarrow> views | _ \<Rightarrow> [])"

text \<open>
  A lock request body with the two required members and, optionally, a duration; a
  client whose new document gets the \<^verbatim>\<open>_id\<close> \<open>n\<close>; and the document such a request
  creates at the instant \<open>t0\<close>.
\<close>

definition lock_body_of :: "string \<Rightarrow> string \<Rightarrow> rat option \<Rightarrow> lock_body" where
  "lock_body_of name owner duration =
     \<lparr>body_resourceName = Some name, body_lockedBy = Some owner,
      body_lockDuration = duration, body_lockType = None, body_purpose = None,
      body_sessionId = None\<rparr>"

definition client_of :: "nat \<Rightarrow> client" where
  "client_of n = \<lparr>client_ip = None, client_userAgent = None, fresh_oid = n\<rparr>"

definition lease_of :: "nat \<Rightarrow> string \<Rightarrow> string \<Rightarrow> string \<Rightarrow> time \<Rightarrow> int \<Rightarrow> resource_lock" where
  "lease_of n name owner type t0 duration =
     \<lparr>oid = n, resourceName = name, lockedBy = owner, lockType = type, lockedAt = t0,
      expiresAt = t0 + duration * 1000, lockDuration = duration,
      metadata = \<lparr>clientIp = None, userAgent = None, sessionId = [], purpose = []\<rparr>\<rparr>"

section \<open>Facts about the store's primitives\<close>

lemma findOne_None_iff: "findOne q s = None \<longleftrightarrow> (\<forall>d\<in>set s. \<not> q d)"
  by (induction s) auto

lemma findOne_SomeD: "findOne q s = Some d \<Longrightarrow> d \<in> set s \<and> q d"
  by (induction s) (auto split: if_splits)

lemma findOne_Some_ex: "d \<in> set s \<Longrightarrow> q d \<Longrightarrow> \<exists>h. findOne q s = Some h"
  by (induction s) auto

lemma deleteOne_count: "snd (deleteOne q s) = (if \<exists>d\<in>set s. q d then 1 else 0)"
  by (induction s) auto

lemma deleteOne_length: "length (fst (deleteOne q s)) + snd (deleteOne q s) = length s"
  by (induction s) auto



lemma deleteOne_unique:
  "distinct (map key s) \<Longrightarrow> fst (deleteOne (\<lambda>d. key d = k) s) = filter (\<lambda>d. key d \<noteq> k) s"
proof (induction s)
  case Nil
  then show ?case by simp
next
  case (Cons a s)
  show ?case
  proof (cases "key a = k")
    case True
    with Cons.prems have "\<forall>d\<in>set s. key d \<noteq> k" by (force simp: image_iff)
    then have "filter (\<lambda>d. key d \<noteq> k) s = s" by (simp add: filter_id_conv)
    with True show ?thesis by simp
  next
    case False
    with Cons show ?thesis by simp
  qed
qed

lemma save_duplicate:
  "w \<in> set s \<Longrightarrow> resourceName w = resourceName d \<Longrightarrow> save d s = Inl duplicate_key"
  by (auto simp: save_def list_ex_iff)

section \<open>Facts about the validation\<close>

text \<open>What each rule has checked when it lets a value through.\<close>

lemma resourceName_rule_Inr:
  "resourceName_rule f v = Inr x \<Longrightarrow>
     v = Some x \<and> x \<noteq> [] \<and> length x \<le> 255 \<and> list_all (\<lambda>c. c \<in> set allowed_chars) x"
  by (auto simp: resourceName_rule_def pattern_test_def split: option.splits if_splits)

lemma lockedBy_rule_Inr:
  "lockedBy_rule v = Inr x \<Longrightarrow> v = Some x \<and> x \<noteq> [] \<and> length x \<le> 100"
  by (auto simp: lockedBy_rule_def split: option.splits if_splits)

lemma lockDuration_rule_Inr:
  "lockDuration_rule v = Inr n \<Longrightarrow>
     n = (case v of None \<Rightarrow> 300 | Some q \<Rightarrow> \<lfloor>q\<rfloor>) \<and> 1 \<le> n \<and> n \<le> 86400 \<and>
     (case v of None \<Rightarrow> True | Some q \<Rightarrow> 1 \<le> q \<and> q \<le> 86400 \<and> of_int \<lfloor>q\<rfloor> = q)"
  by (auto simp: lockDuration_rule_def le_floor_iff floor_le_iff split: option.splits if_splits)

lemma lockType_rule_Inr:
  "lockType_rule v = Inr t \<Longrightarrow>
     t = (case v of None \<Rightarrow> ''exclusive'' | Some x \<Rightarrow> x) \<and> t \<in> set [''read'', ''write'', ''exclusive'']"
  unfolding lockType_rule_def by (cases v) (simp_all split: if_splits)

lemma purpose_rule_Inr:
  "purpose_rule v = Inr p \<Longrightarrow> p = (case v of None \<Rightarrow> [] | Some x \<Rightarrow> x) \<and> length p \<le> 255"
  by (auto simp: purpose_rule_def split: option.splits if_splits)

lemma sessionId_rule_Inr:
  "sessionId_rule v = Inr p \<Longrightarrow> p = (case v of None \<Rightarrow> [] | Some x \<Rightarrow> x) \<and> length p \<le> 100"
  by (auto simp: sessionId_rule_def split: option.splits if_splits)

text \<open>The schema reports exactly one message, or every rule has passed.\<close>

lemma lockRequestSchema_cases:
  "(\<exists>m. lockRequestSchema b = Inl [m]) \<or>
   (\<exists>name owner duration type why session.
      resourceName_rule (\<lambda>x. resourceName_pattern_message) (body_resourceName b) = Inr name \<and>
      lockedBy_rule (body_lockedBy b) = Inr owner \<and>
      lockDuration_rule (body_lockDuration b) = Inr duration \<and>
      lockType_rule (body_lockType b) = Inr type \<and>
      purpose_rule (body_purpose b) = Inr why \<and>
      sessionId_rule (body_sessionId b) = Inr session \<and>
      lockRequestSchema b =
        Inr \<lparr>req_resourceName = name, req_lockedBy = owner,
             req_lockDuration = Some duration, req_lockType = Some type,
             req_purpose = Some why, req_sessionId = Some session\<rparr>)"
  unfolding lockRequestSchema_def by (simp split: sum.splits)

lemma validateLockRequest_Inr:
  assumes "validateLockRequest b = Inr r"
  shows "body_resourceName b = Some (req_resourceName r) \<and>
         req_resourceName r \<noteq> [] \<and> length (req_resourceName r) \<le> 255 \<and>
         list_all (\<lambda>c. c \<in> set allowed_chars) (req_resourceName r) \<and>
         body_lockedBy b = Some (req_lockedBy r) \<and>
         req_lockedBy r \<noteq> [] \<and> length (req_lockedBy r) \<le> 100 \<and>
         req_lockDuration r = Some (case body_lockDuration b of None \<Rightarrow> 300 | Some q \<Rightarrow> \<lfloor>q\<rfloor>) \<and>
         (case body_lockDuration b of None \<Rightarrow> True | Some q \<Rightarrow> 1 \<le> q \<and> q \<le> 86400) \<and>
         req_lockType r = Some (case body_lockType b of None \<Rightarrow> ''exclusive'' | Some t \<Rightarrow> t) \<and>
         req_purpose r = Some (case body_purpose b of None \<Rightarrow> [] | Some p \<Rightarrow> p) \<and>
         req_sessionId r = Some (case body_sessionId b of None \<Rightarrow> [] | Some i \<Rightarrow> i)"
proof -
  from assms have schema: "lockRequestSchema b = Inr r"
    by (auto simp: validateLockRequest_def split: sum.splits)
  with lockRequestSchema_cases [of b] obtain name owner duration type why session where
    rules: "resourceName_rule (\<lambda>x. resourceName_pattern_message) (body_resourceName b) = Inr name"
      "lockedBy_rule (body_lockedBy b) = Inr owner"
      "lockDuration_rule (body_lockDuration b) = Inr duration"
      "lockType_rule (body_lockType b) = Inr type"
      "purpose_rule (body_purpose b) = Inr why"
      "sessionId_rule (body_sessionId b) = Inr session"
    and r: "r = \<lparr>req_resourceName = name, req_lockedBy = owner,
             req_lockDuration = Some duration, req_lockType = Some type,
             req_purpose = Some why, req_sessionId = Some session\<rparr>"
    by auto
  show ?thesis
    using resourceName_rule_Inr [OF rules(1)] lockedBy_rule_Inr [OF rules(2)]
      lockDuration_rule_Inr [OF rules(3)] lockType_rule_Inr [OF rules(4)]
      purpose_rule_Inr [OF rules(5)] sessionId_rule_Inr [OF rules(6)]
    by (simp add: r split: option.splits)
qed


section \<open>Facts about the lock route\<close>

lemma new_lock_fields:
  "oid (new_lock now c r) = fresh_oid c"
  "resourceName (new_lock now c r) = req_resourceName r"
  "lockedBy (new_lock now c r) = req_lockedBy r"
  "lockedAt (new_lock now c r) = now"
  "lockDuration (new_lock now c r) = (case req_lockDuration r of None \<Rightarrow> 300 | Some n \<Rightarrow> n)"
  "expiresAt (new_lock now c r) = now + lockDuration (new_lock now c r) * 1000"
  "lockType (new_lock now c r) = (case req_lockType r of None \<Rightarrow> ''exclusive'' | Some t \<Rightarrow> t)"
  "purpose (metadata (new_lock now c r)) = (case req_purpose r of None \<Rightarrow> [] | Some p \<Rightarrow> p)"
  "sessionId (metadata (new_lock now c r)) = (case req_sessionId r of None \<Rightarrow> [] | Some i \<Rightarrow> i)"
  by (simp_all add: new_lock_def Let_def)

lemma lock_insert_cases:
  "(list_ex (\<lambda>x. resourceName x = req_resourceName r \<or> oid x = fresh_oid c) s \<and>
      lock_insert now c r s = (s, locked_by_another_process)) \<or>
   (\<not> list_ex (\<lambda>x. resourceName x = req_resourceName r \<or> oid x = fresh_oid c) s \<and>
      fst (lock_insert now c r s) = s @ [new_lock now c r] \<and>
      status (snd (lock_insert now c r s)) = 201)"
  by (simp add: lock_insert_def Let_def save_def new_lock_fields duplicate_key_def)


section \<open>Facts about the listing and the extension\<close>

lemma find_page_subset:
  "find_page query limit_n skip_n s = Inr locks \<Longrightarrow> set locks \<subseteq> {d \<in> set s. query d}"
proof -
  assume a: "find_page query limit_n skip_n s = Inr locks"
  let ?all = "sort_key (\<lambda>d. - lockedAt d) (filter query s)"
  have "set (drop (nat skip_n) ?all) \<subseteq> set ?all"
    by (rule set_drop_subset)
  moreover have "set (take (nat \<bar>limit_n\<bar>) (drop (nat skip_n) ?all)) \<subseteq> set (drop (nat skip_n) ?all)"
    by (rule set_take_subset)
  moreover from a have "locks = drop (nat skip_n) ?all \<or>
      locks = take (nat \<bar>limit_n\<bar>) (drop (nat skip_n) ?all)"
    by (auto simp: find_page_def Let_def split: if_splits)
  ultimately have "set locks \<subseteq> set ?all" by auto
  then show ?thesis by auto
qed

lemma list_query_object_active:
  "list_query_object rx now q = Inr query \<Longrightarrow> query d \<Longrightarrow> now < expiresAt d"
  by (auto simp: list_query_object_def list_filter_def split: option.splits if_splits sum.splits)

lemma listed_views:
  assumes "v \<in> set (listed (get_resources rx now q s))"
  shows "\<exists>d\<in>set s. now < expiresAt d \<and> v = lock_status now d"
proof (cases "list_query_object rx now q")
  case (Inl thrown)
  with assms show ?thesis
    by (simp add: get_resources_def listed_def)
next
  case query: (Inr query)
  show ?thesis
  proof (cases "find_page query (query_limit q * 1) ((query_page q - 1) * query_limit q) s")
    case (Inl e)
    with query assms show ?thesis
      by (simp add: get_resources_def listed_def)
  next
    case (Inr locks)
    with query assms have "v \<in> lock_status now ` set locks"
      by (simp add: get_resources_def listed_def)
    with find_page_subset [OF Inr] list_query_object_active [OF query] show ?thesis
      by auto
  qed
qed

text \<open>
  A successful extension moves the expiry by \<^verbatim>\<open>additionalSeconds\<close> seconds, whatever
  their sign, and answers 200.
\<close>

lemma put_extend_success:
  assumes "findOne (\<lambda>d. resourceName d = name \<and> lockedBy d = ebody_lockedBy b \<and>
             now < expiresAt d) s = Some lock"
  shows "fst (put_extend now name b s) =
           save_existing (lock\<lparr>expiresAt := expiresAt lock +
             (case ebody_additionalSeconds b of None \<Rightarrow> 300 | Some n \<Rightarrow> n) * 1000\<rparr>) s \<and>
         status (snd (put_extend now name b s)) = 200"
  using assms by (simp add: put_extend_def Let_def extendLock_def)

section \<open>The requests of the scenarios, evaluated\<close>

lemmas validation_defs =
  validateLockRequest_def lockRequestSchema_def resourceName_rule_def pattern_test_def
  allowed_chars_def lockedBy_rule_def lockDuration_rule_def lockType_rule_def
  purpose_rule_def sessionId_rule_def lock_body_of_def

lemma worker_B_valid:
  "validateLockRequest (lock_body_of ''db-migration-01'' ''worker-B'' None) =
     Inr \<lparr>req_resourceName = ''db-migration-01'', req_lockedBy = ''worker-B'',
          req_lockDuration = Some 300, req_lockType = Some ''exclusive'',
          req_purpose = Some [], req_sessionId = Some []\<rparr>"
  by (simp add: validation_defs)

lemma worker_B_write_valid:
  "validateLockRequest
     ((lock_body_of ''db-migration-01'' ''worker-B'' None)\<lparr>body_lockType := Some ''write''\<rparr>) =
     Inr \<lparr>req_resourceName = ''db-migration-01'', req_lockedBy = ''worker-B'',
          req_lockDuration = Some 300, req_lockType = Some ''write'',
          req_purpose = Some [], req_sessionId = Some []\<rparr>"
  by (simp add: validation_defs)

lemma worker_B_unlock_valid:
  "validateUnlockRequest
     \<lparr>ubody_resourceName = Some ''db-migration-01'', ubody_lockedBy = Some ''worker-B''\<rparr> =
     Inr \<lparr>ureq_resourceName = ''db-migration-01'', ureq_lockedBy = ''worker-B''\<rparr>"
  by (simp add: validateUnlockRequest_def unlockRequestSchema_def resourceName_rule_def
      pattern_test_def allowed_chars_def lockedBy_rule_def)



section \<open>The claims\<close>

subsection \<open>C1: a rejected insert is a conflict\<close>

text \<open>
  C1. An Acquire request for the resource name R has passed validation and its
  pre-check has found no active lease. Before its insert, other requests leave a
  record keyed by R in the collection (\<open>others\<close>: a concurrent writer won the race).
  Then the store rejects the insert with the duplicate-key error 11000, the
  collection stays as the others left it, and the caller gets the Conflict response,
  status 409, not a 5xx. The response states the conflict without the holder's
  details.
\<close>

theorem acquire_lost_race_conflict:
  assumes valid: "validateLockRequest b = Inr r"
    and precheck: "getLockInfo now (req_resourceName r) s = None"
    and winner: "w \<in> set (others s)" "resourceName w = req_resourceName r"
  shows "save (new_lock now c r) (others s) = Inl duplicate_key \<and>
         err_code duplicate_key = 11000 \<and>
         post_lock_racing others now c b s = (others s, locked_by_another_process) \<and>
         status locked_by_another_process = 409"
proof -
  have name: "resourceName (new_lock now c r) = req_resourceName r"
    by (simp add: new_lock_def Let_def)
  have rejected: "save (new_lock now c r) (others s) = Inl duplicate_key"
    using winner name by (simp add: save_duplicate)
  have "lock_insert now c r (others s) = (others s, locked_by_another_process)"
    by (simp add: lock_insert_def Let_def rejected duplicate_key_def)
  then have "post_lock_racing others now c b s = (others s, locked_by_another_process)"
    by (simp add: post_lock_racing_def valid lock_handler_def precheck)
  then show ?thesis
    using rejected by (simp add: duplicate_key_def locked_by_another_process_def)
qed

text \<open>
  The witness: worker-A's lease on \<^verbatim>\<open>db-migration-01\<close> lands between worker-B's
  pre-check on the empty collection and worker-B's insert.
\<close>

theorem acquire_lost_race_conflict_witness:
  "validateLockRequest (lock_body_of ''db-migration-01'' ''worker-B'' None) =
     Inr \<lparr>req_resourceName = ''db-migration-01'', req_lockedBy = ''worker-B'',
          req_lockDuration = Some 300, req_lockType = Some ''exclusive'',
          req_purpose = Some [], req_sessionId = Some []\<rparr> \<and>
   getLockInfo 0 ''db-migration-01'' [] = None \<and>
   save (new_lock 0 (client_of 18)
       \<lparr>req_resourceName = ''db-migration-01'', req_lockedBy = ''worker-B'',
        req_lockDuration = Some 300, req_lockType = Some ''exclusive'',
        req_purpose = Some [], req_sessionId = Some []\<rparr>)
     [lease_of 17 ''db-migration-01'' ''worker-A'' ''exclusive'' 0 300] = Inl duplicate_key \<and>
   post_lock_racing (\<lambda>s. s @ [lease_of 17 ''db-migration-01'' ''worker-A'' ''exclusive'' 0 300])
     0 (client_of 18) (lock_body_of ''db-migration-01'' ''worker-B'' None) [] =
     ([lease_of 17 ''db-migration-01'' ''worker-A'' ''exclusive'' 0 300],
      locked_by_another_process) \<and>
   status locked_by_another_process = 409"
proof -
  let ?winner = "lease_of 17 ''db-migration-01'' ''worker-A'' ''exclusive'' 0 300"
  have precheck: "getLockInfo 0 (req_resourceName
      \<lparr>req_resourceName = ''db-migration-01'', req_lockedBy = ''worker-B'',
       req_lockDuration = Some 300, req_lockType = Some ''exclusive'',
       req_purpose = Some [], req_sessionId = Some []\<rparr>) [] = None"
    by (simp add: getLockInfo_def)
  have won: "?winner \<in> set ((\<lambda>s. s @ [?winner]) [])"
    by simp
  have same: "resourceName ?winner = req_resourceName
      \<lparr>req_resourceName = ''db-migration-01'', req_lockedBy = ''worker-B'',
       req_lockDuration = Some 300, req_lockType = Some ''exclusive'',
       req_purpose = Some [], req_sessionId = Some []\<rparr>"
    by (simp add: lease_of_def)
  from acquire_lost_race_conflict [where others = "\<lambda>s. s @ [?winner]" and s = "[]"
      and w = ?winner and c = "client_of 18", OF worker_B_valid precheck won same]
  show ?thesis
    by (simp add: worker_B_valid getLockInfo_def)
qed

subsection \<open>C2: an expired record is absent on every read path\<close>

text \<open>
  C2. For every resource name and every instant \<open>now\<close>: when every record keyed by
  the name has \<^verbatim>\<open>expiresAt <= now\<close>, whether or not the sweep has deleted it, the
  lookup of \<^verbatim>\<open>getLockInfo\<close> finds nothing, GetStatus answers Available, the
  Acquire pre-check lets the request through to the insert, and no entry of the
  listing carries the name; every entry of any listing expires after \<open>now\<close>.
\<close>

theorem expired_lease_absent_on_every_read:
  assumes expired: "\<forall>x\<in>set s. resourceName x = name \<longrightarrow> expiresAt x \<le> now"
  shows "getLockInfo now name s = None \<and>
         get_resource now name s = available name \<and>
         (req_resourceName r = name \<longrightarrow>
            lock_handler others now c r s = lock_insert now c r (others s)) \<and>
         (\<forall>v\<in>set (listed (get_resources rx now q s)).
            view_resourceName v \<noteq> name \<and> now < view_expiresAt v)"
proof -
  from expired have none: "getLockInfo now name s = None"
    by (auto simp: getLockInfo_def findOne_None_iff)
  have "view_resourceName v \<noteq> name \<and> now < view_expiresAt v"
    if "v \<in> set (listed (get_resources rx now q s))" for v
  proof -
    from listed_views [OF that] obtain d where
      d: "d \<in> set s" "now < expiresAt d" "v = lock_status now d" by auto
    with expired have "resourceName d \<noteq> name" by auto
    with d(2,3) show ?thesis by (simp add: lock_status_def)
  qed
  with none show ?thesis
    by (simp add: get_resource_def lock_handler_def)
qed

text \<open>The witness: the one-second lease on \<^verbatim>\<open>cache-flush\<close>, two seconds later, unswept.\<close>

theorem expired_lease_absent_on_every_read_witness:
  "expiresAt (lease_of 17 ''cache-flush'' ''worker-C'' ''exclusive'' 0 1) \<le> 2000 \<and>
   getLockInfo 2000 ''cache-flush''
     [lease_of 17 ''cache-flush'' ''worker-C'' ''exclusive'' 0 1] = None \<and>
   get_resource 2000 ''cache-flush''
     [lease_of 17 ''cache-flush'' ''worker-C'' ''exclusive'' 0 1] = available ''cache-flush''"
proof -
  have expired: "\<forall>x\<in>set [lease_of 17 ''cache-flush'' ''worker-C'' ''exclusive'' 0 1].
      resourceName x = ''cache-flush'' \<longrightarrow> expiresAt x \<le> 2000"
    by (simp add: lease_of_def)
  from expired_lease_absent_on_every_read [OF expired]
  show ?thesis
    by (simp add: lease_of_def)
qed

subsection \<open>C3: release by another owner\<close>

text \<open>
  C3. The active lease on R is held by an owner other than the one the Release
  request names (resource names are unique in the collection). Then the handler
  answers NotFound, status 404, and so does the route for a body that validates to the
  request; the collection is returned as it was, and the lookup of R still finds the
  same lease, active and unmodified.
\<close>

theorem release_by_other_owner_not_found:
  assumes keys: "unique_keys s"
    and held: "d \<in> set s" "resourceName d = ureq_resourceName r" "now < expiresAt d"
    and other: "lockedBy d \<noteq> ureq_lockedBy r"
  shows "unlock_handler now r s = (s, unlock_not_found) \<and>
         status unlock_not_found = 404 \<and>
         (validateUnlockRequest b = Inr r \<longrightarrow> post_unlock now b s = (s, unlock_not_found)) \<and>
         getLockInfo now (resourceName d) (fst (unlock_handler now r s)) = Some d"
proof -
  from keys have names: "distinct (map resourceName s)"
    by (simp add: unique_keys_def)
  have only: "x = d" if "x \<in> set s" "resourceName x = resourceName d" for x
    using names that held(1) by (meson distinct_map inj_onD)
  have "\<forall>x\<in>set s. \<not> (resourceName x = ureq_resourceName r \<and>
          lockedBy x = ureq_lockedBy r \<and> now < expiresAt x)"
    using only other held(2) by auto
  then have "findOne (\<lambda>x. resourceName x = ureq_resourceName r \<and>
          lockedBy x = ureq_lockedBy r \<and> now < expiresAt x) s = None"
    by (simp add: findOne_None_iff)
  then have handler: "unlock_handler now r s = (s, unlock_not_found)"
    by (simp add: unlock_handler_def)
  obtain h where h: "getLockInfo now (resourceName d) s = Some h"
    unfolding getLockInfo_def
    using findOne_Some_ex [of d s "\<lambda>x. resourceName x = resourceName d \<and> now < expiresAt x"] held
    by auto
  then have "h \<in> set s \<and> resourceName h = resourceName d"
    unfolding getLockInfo_def by (auto dest: findOne_SomeD)
  with only have "h = d" by simp
  with h handler show ?thesis
    by (simp add: post_unlock_def unlock_not_found_def)
qed

text \<open>The witness: worker-B tries to release worker-A's lease.\<close>

theorem release_by_other_owner_not_found_witness:
  "unique_keys [lease_of 17 ''db-migration-01'' ''worker-A'' ''exclusive'' 0 300] \<and>
   unlock_handler 1000 \<lparr>ureq_resourceName = ''db-migration-01'', ureq_lockedBy = ''worker-B''\<rparr>
     [lease_of 17 ''db-migration-01'' ''worker-A'' ''exclusive'' 0 300] =
     ([lease_of 17 ''db-migration-01'' ''worker-A'' ''exclusive'' 0 300], unlock_not_found) \<and>
   status unlock_not_found = 404 \<and>
   post_unlock 1000
     \<lparr>ubody_resourceName = Some ''db-migration-01'', ubody_lockedBy = Some ''worker-B''\<rparr>
     [lease_of 17 ''db-migration-01'' ''worker-A'' ''exclusive'' 0 300] =
     ([lease_of 17 ''db-migration-01'' ''worker-A'' ''exclusive'' 0 300], unlock_not_found)"
proof -
  let ?held = "lease_of 17 ''db-migration-01'' ''worker-A'' ''exclusive'' 0 300"
  let ?r = "\<lparr>ureq_resourceName = ''db-migration-01'', ureq_lockedBy = ''worker-B''\<rparr>"
  have keys: "unique_keys [?held]"
    by (simp add: unique_keys_def)
  have held: "?held \<in> set [?held]" "resourceName ?held = ureq_resourceName ?r"
    "1000 < expiresAt ?held" "lockedBy ?held \<noteq> ureq_lockedBy ?r"
    by (simp_all add: lease_of_def)
  from release_by_other_owner_not_found [OF keys held,
      of "\<lparr>ubody_resourceName = Some ''db-migration-01'', ubody_lockedBy = Some ''worker-B''\<rparr>"]
  show ?thesis
    by (simp add: keys worker_B_unlock_valid)
qed

subsection \<open>C4: extension and the expiry\<close>

text \<open>
  C4. The claim is that a successful Extend never decreases \<^verbatim>\<open>expiresAt\<close>, for every
  \<^verbatim>\<open>additionalSeconds\<close> the interface accepts. The route validates nothing, so it
  accepts a negative number of seconds: worker-A's lease on \<^verbatim>\<open>db-migration-01\<close>
  expires at 300000; extended by -100 seconds, the route answers 200 with
  \<^verbatim>\<open>Lock extended successfully\<close> and the lease expires at 200000.
\<close>

theorem extend_by_negative_seconds_shortens_lease:
  "expiresAt (lease_of 17 ''db-migration-01'' ''worker-A'' ''exclusive'' 0 300) = 300000 \<and>
   put_extend 1000 ''db-migration-01''
     \<lparr>ebody_lockedBy = ''worker-A'', ebody_additionalSeconds = Some (- 100)\<rparr>
     [lease_of 17 ''db-migration-01'' ''worker-A'' ''exclusive'' 0 300] =
     ([(lease_of 17 ''db-migration-01'' ''worker-A'' ''exclusive'' 0 300)
         \<lparr>expiresAt := 200000\<rparr>],
      \<lparr>status = 200, success = True, message = Some ''Lock extended successfully'',
       payload = Extended ''db-migration-01'' 200000 199 (- 100)\<rparr>)"
  by (simp add: put_extend_def lease_of_def extendLock_def save_existing_def remainingTime_def)

subsection \<open>C5: force release\<close>

text \<open>
  C5. When the credential differs from the administrative secret, ForceRelease
  answers Unauthorized, status 403, and returns the collection untouched; the answer
  is the same for every collection, so nothing is read. When the credential matches
  and a record \<open>d\<close> is keyed by R, whoever owns it and whenever it expires, the answer
  is 200 and one record keyed by R, the first, is deleted; with unique resource names
  that is \<open>d\<close>, and no record keyed by R is left.
\<close>

theorem force_unlock_authorization:
  "(adminKey \<noteq> ADMIN_KEY \<longrightarrow>
      delete_force_unlock ADMIN_KEY now name adminKey s = (s, unauthorized) \<and>
      status unauthorized = 403) \<and>
   (adminKey = ADMIN_KEY \<longrightarrow> d \<in> set s \<longrightarrow> resourceName d = name \<longrightarrow>
      status (snd (delete_force_unlock ADMIN_KEY now name adminKey s)) = 200 \<and>
      fst (delete_force_unlock ADMIN_KEY now name adminKey s) =
        fst (deleteOne (\<lambda>x. resourceName x = name) s) \<and>
      length (fst (delete_force_unlock ADMIN_KEY now name adminKey s)) + 1 = length s \<and>
      (unique_keys s \<longrightarrow>
         fst (delete_force_unlock ADMIN_KEY now name adminKey s) =
           filter (\<lambda>x. resourceName x \<noteq> name) s \<and>
         d \<notin> set (fst (delete_force_unlock ADMIN_KEY now name adminKey s))))"
proof (intro conjI impI)
  assume "adminKey \<noteq> ADMIN_KEY"
  then show "delete_force_unlock ADMIN_KEY now name adminKey s = (s, unauthorized)"
    by (simp add: delete_force_unlock_def)
next
  show "status unauthorized = 403"
    by (simp add: unauthorized_def)
next
  assume match: "adminKey = ADMIN_KEY" and d: "d \<in> set s" "resourceName d = name"
  then have one: "snd (deleteOne (\<lambda>x. resourceName x = name) s) = 1"
    by (auto simp: deleteOne_count)
  with match show "status (snd (delete_force_unlock ADMIN_KEY now name adminKey s)) = 200"
    by (simp add: delete_force_unlock_def Let_def)
  from match show store: "fst (delete_force_unlock ADMIN_KEY now name adminKey s) =
      fst (deleteOne (\<lambda>x. resourceName x = name) s)"
    by (simp add: delete_force_unlock_def Let_def)
  from one deleteOne_length [of "\<lambda>x. resourceName x = name" s]
  show "length (fst (delete_force_unlock ADMIN_KEY now name adminKey s)) + 1 = length s"
    by (simp add: store)
  assume "unique_keys s"
  then have "distinct (map resourceName s)"
    by (simp add: unique_keys_def)
  from deleteOne_unique [OF this, of name] store
  show gone: "fst (delete_force_unlock ADMIN_KEY now name adminKey s) =
      filter (\<lambda>x. resourceName x \<noteq> name) s"
    by simp
  from d(2) gone show "d \<notin> set (fst (delete_force_unlock ADMIN_KEY now name adminKey s))"
    by simp
qed

text \<open>
  The witness: a wrong key, then the right key, on the expired lease of worker-C.
\<close>

theorem force_unlock_authorization_witness:
  "delete_force_unlock (Some ''admin-secret'') 2000 ''cache-flush'' (Some ''guess'')
     [lease_of 17 ''cache-flush'' ''worker-C'' ''exclusive'' 0 1] =
     ([lease_of 17 ''cache-flush'' ''worker-C'' ''exclusive'' 0 1], unauthorized) \<and>
   status unauthorized = 403 \<and>
   unique_keys [lease_of 17 ''cache-flush'' ''worker-C'' ''exclusive'' 0 1] \<and>
   expiresAt (lease_of 17 ''cache-flush'' ''worker-C'' ''exclusive'' 0 1) \<le> 2000 \<and>
   status (snd (delete_force_unlock (Some ''admin-secret'') 2000 ''cache-flush''
     (Some ''admin-secret'') [lease_of 17 ''cache-flush'' ''worker-C'' ''exclusive'' 0 1])) = 200 \<and>
   fst (delete_force_unlock (Some ''admin-secret'') 2000 ''cache-flush''
     (Some ''admin-secret'') [lease_of 17 ''cache-flush'' ''worker-C'' ''exclusive'' 0 1]) = []"
proof -
  let ?d = "lease_of 17 ''cache-flush'' ''worker-C'' ''exclusive'' 0 1"
  have keys: "unique_keys [?d]"
    by (simp add: unique_keys_def)
  have d: "?d \<in> set [?d]" "resourceName ?d = ''cache-flush''" "expiresAt ?d \<le> 2000"
    by (simp_all add: lease_of_def)
  have wrong: "Some ''guess'' \<noteq> Some ''admin-secret''"
    by simp
  from force_unlock_authorization [of "Some ''guess''" "Some ''admin-secret''" 2000
      "''cache-flush''" "[?d]" ?d]
    force_unlock_authorization [of "Some ''admin-secret''" "Some ''admin-secret''" 2000
      "''cache-flush''" "[?d]" ?d]
  show ?thesis
    using keys d wrong by simp
qed

subsection \<open>C6: invalid Acquire requests\<close>

text \<open>
  C6. An Acquire request whose \<^verbatim>\<open>resourceName\<close> is missing, empty, longer than 255
  characters or has a character outside \<^verbatim>\<open>[a-zA-Z0-9._-]\<close>, or whose
  \<^verbatim>\<open>lockDuration\<close> is below 1 or above 86400, or whose \<^verbatim>\<open>lockedBy\<close> is missing or
  empty, is answered with status 400, \<^verbatim>\<open>Validation error\<close> and the one message the
  schema reports, and the collection is returned as it was: no lease is created. The
  message is that of the first key that fails, in the order \<^verbatim>\<open>resourceName\<close>,
  \<^verbatim>\<open>lockedBy\<close>, \<^verbatim>\<open>lockDuration\<close>, and names the key and the rule it breaks (when
  the first two keys pass, the duration is the one out of range).
\<close>

theorem invalid_lock_request_rejected:
  assumes invalid:
    "body_resourceName b = None \<or> body_resourceName b = Some [] \<or>
     (\<exists>x. body_resourceName b = Some x \<and>
          (255 < length x \<or> (\<exists>ch\<in>set x. ch \<notin> set allowed_chars))) \<or>
     (\<exists>q. body_lockDuration b = Some q \<and> (q < 1 \<or> 86400 < q)) \<or>
     body_lockedBy b = None \<or> body_lockedBy b = Some []"
  shows \<open>\<exists>m. lockRequestSchema b = Inl [m] \<and>
     post_lock_racing others now c b s =
       (s, \<lparr>status = 400, success = False, message = Some ''Validation error'',
            payload = Errors [m]\<rparr>) \<and>
     (case body_resourceName b of
        None \<Rightarrow> m = ''"resourceName" is required''
      | Some x \<Rightarrow>
          if x = [] then m = ''"resourceName" is not allowed to be empty''
          else if 255 < length x
            then m = ''"resourceName" length must be less than or equal to 255 characters long''
          else if \<exists>ch\<in>set x. ch \<notin> set allowed_chars
            then m = ''Resource name can only contain alphanumeric characters, dots, hyphens, and underscores''
          else
            (case body_lockedBy b of
               None \<Rightarrow> m = ''"lockedBy" is required''
             | Some y \<Rightarrow>
                 if y = [] then m = ''"lockedBy" is not allowed to be empty''
                 else if 100 < length y
                   then m = ''"lockedBy" length must be less than or equal to 100 characters long''
                 else
                   (case body_lockDuration b of
                      None \<Rightarrow> False
                    | Some q \<Rightarrow>
                        if q < - 9007199254740991 \<or> 9007199254740991 < q
                          then m = ''"lockDuration" must be a safe number''
                        else if of_int \<lfloor>q\<rfloor> \<noteq> q
                          then m = ''"lockDuration" must be an integer''
                        else if q < 1
                          then m = ''"lockDuration" must be greater than or equal to 1''
                        else 86400 < q \<and>
                          m = ''"lockDuration" must be less than or equal to 86400'')))\<close>
proof -
  have route: "post_lock_racing others now c b s =
      (s, \<lparr>status = 400, success = False, message = Some ''Validation error'',
           payload = Errors [m]\<rparr>)"
    if "lockRequestSchema b = Inl [m]" for m
    using that
    by (simp add: post_lock_racing_def validateLockRequest_def validation_error_def)
  have name_fails: "lockRequestSchema b = Inl [m]"
    if "resourceName_rule (\<lambda>x. resourceName_pattern_message) (body_resourceName b) = Inl m"
    for m
    using that by (simp add: lockRequestSchema_def)
  have owner_fails: "lockRequestSchema b = Inl [m]"
    if "resourceName_rule (\<lambda>x. resourceName_pattern_message) (body_resourceName b) = Inr x"
      and "lockedBy_rule (body_lockedBy b) = Inl m"
    for m x
    using that by (simp add: lockRequestSchema_def)
  have duration_fails: "lockRequestSchema b = Inl [m]"
    if "resourceName_rule (\<lambda>x. resourceName_pattern_message) (body_resourceName b) = Inr x"
      and "lockedBy_rule (body_lockedBy b) = Inr y"
      and "lockDuration_rule (body_lockDuration b) = Inl m"
    for m x y
    using that by (simp add: lockRequestSchema_def)
  show ?thesis
  proof (cases "resourceName_rule (\<lambda>x. resourceName_pattern_message) (body_resourceName b)")
    case (Inl m)
    from Inl have "case body_resourceName b of
        None \<Rightarrow> m = ''\"resourceName\" is required''
      | Some x \<Rightarrow>
          if x = [] then m = ''\"resourceName\" is not allowed to be empty''
          else if 255 < length x
            then m = ''\"resourceName\" length must be less than or equal to 255 characters long''
          else (\<exists>ch\<in>set x. ch \<notin> set allowed_chars) \<and>
            m = ''Resource name can only contain alphanumeric characters, dots, hyphens, and underscores''"
      by (auto simp: resourceName_rule_def pattern_test_def list_all_iff
          resourceName_pattern_message_def split: option.splits if_splits)
    with name_fails [OF Inl] route [OF name_fails [OF Inl]] show ?thesis
      by (intro exI [of _ m]) (auto split: option.splits if_splits)
  next
    case name: (Inr x)
    from resourceName_rule_Inr [OF name]
    have x: "body_resourceName b = Some x" "x \<noteq> []" "\<not> 255 < length x"
      "\<not> (\<exists>ch\<in>set x. ch \<notin> set allowed_chars)"
      by (auto simp: list_all_iff)
    show ?thesis
    proof (cases "lockedBy_rule (body_lockedBy b)")
      case (Inl m)
      from Inl have "case body_lockedBy b of
          None \<Rightarrow> m = ''\"lockedBy\" is required''
        | Some y \<Rightarrow>
            if y = [] then m = ''\"lockedBy\" is not allowed to be empty''
            else 100 < length y \<and>
              m = ''\"lockedBy\" length must be less than or equal to 100 characters long''"
        by (auto simp: lockedBy_rule_def split: option.splits if_splits)
      with owner_fails [OF name Inl] route [OF owner_fails [OF name Inl]] x show ?thesis
        by (intro exI [of _ m]) (auto split: option.splits if_splits)
    next
      case owner: (Inr y)
      from lockedBy_rule_Inr [OF owner]
      have y: "body_lockedBy b = Some y" "y \<noteq> []" "\<not> 100 < length y"
        by auto
      from invalid x y obtain q where q: "body_lockDuration b = Some q" "q < 1 \<or> 86400 < q"
        by auto
      show ?thesis
      proof (cases "lockDuration_rule (body_lockDuration b)")
        case (Inl m)
        from Inl q have "if q < - 9007199254740991 \<or> 9007199254740991 < q
              then m = ''\"lockDuration\" must be a safe number''
            else if of_int \<lfloor>q\<rfloor> \<noteq> q
              then m = ''\"lockDuration\" must be an integer''
            else if q < 1
              then m = ''\"lockDuration\" must be greater than or equal to 1''
            else 86400 < q \<and>
              m = ''\"lockDuration\" must be less than or equal to 86400''"
          by (auto simp: lockDuration_rule_def split: if_splits)
        with duration_fails [OF name owner Inl] route [OF duration_fails [OF name owner Inl]]
          x y q(1)
        show ?thesis
          by (intro exI [of _ m]) simp
      next
        case (Inr n)
        from lockDuration_rule_Inr [OF Inr] q show ?thesis
          by auto
      qed
    qed
  qed
qed

text \<open>The witness: a duration of 0 seconds.\<close>

theorem invalid_lock_request_rejected_witness:
  \<open>body_lockDuration (lock_body_of ''cache-flush'' ''worker-C'' (Some 0)) = Some 0 \<and>
   (0::rat) < 1 \<and>
   lockRequestSchema (lock_body_of ''cache-flush'' ''worker-C'' (Some 0)) =
     Inl [''"lockDuration" must be greater than or equal to 1''] \<and>
   post_lock_racing (\<lambda>s. s) 0 (client_of 17)
     (lock_body_of ''cache-flush'' ''worker-C'' (Some 0)) [] =
     ([], \<lparr>status = 400, success = False, message = Some ''Validation error'',
           payload = Errors [''"lockDuration" must be greater than or equal to 1'']\<rparr>)\<close>
proof -
  let ?b = "lock_body_of ''cache-flush'' ''worker-C'' (Some 0)"
  have fields: "body_resourceName ?b = Some ''cache-flush''"
    "body_lockedBy ?b = Some ''worker-C''" "body_lockDuration ?b = Some 0"
    by (simp_all add: lock_body_of_def)
  have allowed: "\<not> (\<exists>ch\<in>set ''cache-flush''. ch \<notin> set allowed_chars)"
    by (simp add: allowed_chars_def)
  from fields(3) have "\<exists>q. body_lockDuration ?b = Some q \<and> (q < 1 \<or> 86400 < q)"
    by simp
  then have invalid:
    "body_resourceName ?b = None \<or> body_resourceName ?b = Some [] \<or>
     (\<exists>x. body_resourceName ?b = Some x \<and>
          (255 < length x \<or> (\<exists>ch\<in>set x. ch \<notin> set allowed_chars))) \<or>
     (\<exists>q. body_lockDuration ?b = Some q \<and> (q < 1 \<or> 86400 < q)) \<or>
     body_lockedBy ?b = None \<or> body_lockedBy ?b = Some []"
    by blast
  from invalid_lock_request_rejected [OF invalid, of "\<lambda>s. s" 0 "client_of 17" "[]"]
  show ?thesis
    using allowed by (auto simp: fields)
qed

subsection \<open>C7: force release of an expired lease\<close>




subsection \<open>C8: the lease class does not arbitrate\<close>

text \<open>
  C8. For all classes \<open>c1\<close> and \<open>c2\<close> of read, write and exclusive: when an active
  lease of class \<open>c1\<close> exists on R, a valid Acquire of class \<open>c2\<close> on R is answered
  with Conflict, status 409, carrying the holder the pre-check found, and the
  collection is returned as it was.
\<close>

theorem any_lease_class_blocks_acquire:
  assumes valid: "validateLockRequest b = Inr r"
    and held: "d \<in> set s" "resourceName d = req_resourceName r" "now < expiresAt d"
    and classes: "lockType d = c1" "req_lockType r = Some c2"
      "c1 \<in> set [''read'', ''write'', ''exclusive'']"
      "c2 \<in> set [''read'', ''write'', ''exclusive'']"
  shows "\<exists>h. getLockInfo now (req_resourceName r) s = Some h \<and>
             post_lock_racing others now c b s = (s, already_locked now h) \<and>
             status (already_locked now h) = 409"
proof -
  from held obtain h where "getLockInfo now (req_resourceName r) s = Some h"
    unfolding getLockInfo_def
    using findOne_Some_ex [of d s "\<lambda>d. resourceName d = req_resourceName r \<and> now < expiresAt d"]
    by auto
  then show ?thesis
    by (simp add: post_lock_racing_def valid lock_handler_def already_locked_def)
qed

text \<open>The witness: a write request against a read lease.\<close>

theorem any_lease_class_blocks_acquire_witness:
  "validateLockRequest
     ((lock_body_of ''db-migration-01'' ''worker-B'' None)\<lparr>body_lockType := Some ''write''\<rparr>) =
     Inr \<lparr>req_resourceName = ''db-migration-01'', req_lockedBy = ''worker-B'',
          req_lockDuration = Some 300, req_lockType = Some ''write'',
          req_purpose = Some [], req_sessionId = Some []\<rparr> \<and>
   lockType (lease_of 17 ''db-migration-01'' ''worker-A'' ''read'' 0 300) = ''read'' \<and>
   (1000::int) < expiresAt (lease_of 17 ''db-migration-01'' ''worker-A'' ''read'' 0 300) \<and>
   (\<exists>h. getLockInfo 1000 ''db-migration-01''
          [lease_of 17 ''db-migration-01'' ''worker-A'' ''read'' 0 300] = Some h \<and>
        post_lock_racing (\<lambda>s. s) 1000 (client_of 18)
          ((lock_body_of ''db-migration-01'' ''worker-B'' None)\<lparr>body_lockType := Some ''write''\<rparr>)
          [lease_of 17 ''db-migration-01'' ''worker-A'' ''read'' 0 300] =
          ([lease_of 17 ''db-migration-01'' ''worker-A'' ''read'' 0 300], already_locked 1000 h) \<and>
        status (already_locked 1000 h) = 409)"
proof -
  let ?d = "lease_of 17 ''db-migration-01'' ''worker-A'' ''read'' 0 300"
  let ?r = "\<lparr>req_resourceName = ''db-migration-01'', req_lockedBy = ''worker-B'',
          req_lockDuration = Some 300, req_lockType = Some ''write'',
          req_purpose = Some [], req_sessionId = Some []\<rparr>"
  have held: "?d \<in> set [?d]" "resourceName ?d = req_resourceName ?r" "1000 < expiresAt ?d"
    by (simp_all add: lease_of_def)
  have classes: "lockType ?d = ''read''" "req_lockType ?r = Some ''write''"
    "''read'' \<in> set [''read'', ''write'', ''exclusive'']"
    "''write'' \<in> set [''read'', ''write'', ''exclusive'']"
    by (simp_all add: lease_of_def)
  from any_lease_class_blocks_acquire [OF worker_B_write_valid held classes,
      of "\<lambda>s. s" "client_of 18"]
  show ?thesis
    using held(3) classes(1) by (simp add: worker_B_write_valid)
qed

subsection \<open>C9: the sweep\<close>

text \<open>
  C9. The sweep keeps exactly the records that do not expire before \<open>now\<close> and counts
  the others as deleted. A second sweep at the same instant deletes nothing; neither
  does a second sweep at another instant \<open>later\<close> when no record crosses its expiry
  between the two runs, and it leaves the collection as the first sweep left it.
\<close>

theorem sweep_deletes_expired_and_is_idempotent:
  "fst (expiry_sweep now s) = filter (\<lambda>d. \<not> expiresAt d < now) s \<and>
   snd (expiry_sweep now s) = length (filter (\<lambda>d. expiresAt d < now) s) \<and>
   snd (expiry_sweep now (fst (expiry_sweep now s))) = 0 \<and>
   ((\<forall>d\<in>set s. \<not> (now \<le> expiresAt d \<and> expiresAt d < later)) \<longrightarrow>
      snd (expiry_sweep later (fst (expiry_sweep now s))) = 0 \<and>
      fst (expiry_sweep later (fst (expiry_sweep now s))) = fst (expiry_sweep now s))"
proof -
  have "filter (\<lambda>d. expiresAt d < later) (filter (\<lambda>d. \<not> expiresAt d < now) s) = []"
    if "\<forall>d\<in>set s. \<not> (now \<le> expiresAt d \<and> expiresAt d < later)"
    using that by (auto simp: filter_empty_conv)
  moreover have "filter (\<lambda>d. \<not> expiresAt d < later) (filter (\<lambda>d. \<not> expiresAt d < now) s) =
      filter (\<lambda>d. \<not> expiresAt d < now) s"
    if "\<forall>d\<in>set s. \<not> (now \<le> expiresAt d \<and> expiresAt d < later)"
    unfolding filter_id_conv using that by auto
  ultimately show ?thesis
    by (simp add: expiry_sweep_def deleteMany_def)
qed

text \<open>The witness: one expired and one active lease, swept at 2000 and at 3000.\<close>

theorem sweep_deletes_expired_and_is_idempotent_witness:
  "snd (expiry_sweep 2000
     [lease_of 17 ''cache-flush'' ''worker-C'' ''exclusive'' 0 1,
      lease_of 18 ''db-migration-01'' ''worker-A'' ''exclusive'' 0 300]) = 1 \<and>
   fst (expiry_sweep 2000
     [lease_of 17 ''cache-flush'' ''worker-C'' ''exclusive'' 0 1,
      lease_of 18 ''db-migration-01'' ''worker-A'' ''exclusive'' 0 300]) =
     [lease_of 18 ''db-migration-01'' ''worker-A'' ''exclusive'' 0 300] \<and>
   snd (expiry_sweep 3000 (fst (expiry_sweep 2000
     [lease_of 17 ''cache-flush'' ''worker-C'' ''exclusive'' 0 1,
      lease_of 18 ''db-migration-01'' ''worker-A'' ''exclusive'' 0 300]))) = 0"
proof -
  let ?s = "[lease_of 17 ''cache-flush'' ''worker-C'' ''exclusive'' 0 1,
      lease_of 18 ''db-migration-01'' ''worker-A'' ''exclusive'' 0 300]"
  have quiet: "\<forall>d\<in>set ?s. \<not> (2000 \<le> expiresAt d \<and> expiresAt d < 3000)"
    by (simp add: lease_of_def)
  note sweep = sweep_deletes_expired_and_is_idempotent [of 2000 ?s 3000]
  from sweep quiet have second: "snd (expiry_sweep 3000 (fst (expiry_sweep 2000 ?s))) = 0"
    by blast
  from sweep have "snd (expiry_sweep 2000 ?s) = length (filter (\<lambda>d. expiresAt d < 2000) ?s)"
    by blast
  then have first: "snd (expiry_sweep 2000 ?s) = 1"
    by (simp add: lease_of_def)
  from sweep have "fst (expiry_sweep 2000 ?s) = filter (\<lambda>d. \<not> expiresAt d < 2000) ?s"
    by blast
  then have kept: "fst (expiry_sweep 2000 ?s) =
      [lease_of 18 ''db-migration-01'' ''worker-A'' ''exclusive'' 0 300]"
    by (simp add: lease_of_def)
  from first kept second show ?thesis
    by blast
qed

subsection \<open>C10: defaults of an acquisition\<close>

text \<open>
  C10. A valid Acquire request on a resource name with no record creates one lease
  (201) whose optional fields are the body's where present and the defaults where
  omitted: \<^verbatim>\<open>lockDuration\<close> 300 seconds, \<^verbatim>\<open>lockType\<close> exclusive, empty \<^verbatim>\<open>purpose\<close>
  and \<^verbatim>\<open>sessionId\<close>. The lease expires \<^verbatim>\<open>lockDuration\<close> seconds after its
  acquisition, so 300 seconds after it when no duration is given.
\<close>

theorem acquire_defaults:
  assumes valid: "validateLockRequest b = Inr r"
    and free: "\<not> list_ex (\<lambda>x. resourceName x = req_resourceName r \<or> oid x = fresh_oid c) s"
  shows "\<exists>d. fst (post_lock now c b s) = s @ [d] \<and>
             status (snd (post_lock now c b s)) = 201 \<and>
             resourceName d = req_resourceName r \<and> lockedBy d = req_lockedBy r \<and>
             lockedAt d = now \<and>
             lockDuration d = (case body_lockDuration b of None \<Rightarrow> 300 | Some q \<Rightarrow> \<lfloor>q\<rfloor>) \<and>
             expiresAt d = now + lockDuration d * 1000 \<and>
             lockType d = (case body_lockType b of None \<Rightarrow> ''exclusive'' | Some t \<Rightarrow> t) \<and>
             purpose (metadata d) = (case body_purpose b of None \<Rightarrow> [] | Some p \<Rightarrow> p) \<and>
             sessionId (metadata d) = (case body_sessionId b of None \<Rightarrow> [] | Some i \<Rightarrow> i)"
proof -
  from free have "\<forall>x\<in>set s. resourceName x \<noteq> req_resourceName r"
    by (auto simp: list_ex_iff)
  then have pre: "getLockInfo now (req_resourceName r) s = None"
    by (simp add: getLockInfo_def findOne_None_iff)
  have route: "post_lock now c b s = lock_insert now c r s"
    by (simp add: post_lock_def post_lock_racing_def valid lock_handler_def pre)
  from lock_insert_cases [of r c s now] free
  have ins: "fst (lock_insert now c r s) = s @ [new_lock now c r]"
    "status (snd (lock_insert now c r s)) = 201"
    by auto
  show ?thesis
    using validateLockRequest_Inr [OF valid] ins
    by (intro exI [of _ "new_lock now c r"]) (simp add: route new_lock_fields)
qed

text \<open>The witness: worker-B's request with the two required members only.\<close>

theorem acquire_defaults_witness:
  "validateLockRequest (lock_body_of ''db-migration-01'' ''worker-B'' None) =
     Inr \<lparr>req_resourceName = ''db-migration-01'', req_lockedBy = ''worker-B'',
          req_lockDuration = Some 300, req_lockType = Some ''exclusive'',
          req_purpose = Some [], req_sessionId = Some []\<rparr> \<and>
   (\<exists>d. fst (post_lock 5000 (client_of 18)
            (lock_body_of ''db-migration-01'' ''worker-B'' None) []) = [d] \<and>
        status (snd (post_lock 5000 (client_of 18)
            (lock_body_of ''db-migration-01'' ''worker-B'' None) [])) = 201 \<and>
        resourceName d = ''db-migration-01'' \<and> lockedBy d = ''worker-B'' \<and>
        lockedAt d = 5000 \<and> lockDuration d = 300 \<and> expiresAt d = 305000 \<and>
        lockType d = ''exclusive'' \<and> purpose (metadata d) = [] \<and>
        sessionId (metadata d) = [])"
proof -
  have free: "\<not> list_ex (\<lambda>x. resourceName x = req_resourceName
        \<lparr>req_resourceName = ''db-migration-01'', req_lockedBy = ''worker-B'',
         req_lockDuration = Some 300, req_lockType = Some ''exclusive'',
         req_purpose = Some [], req_sessionId = Some []\<rparr> \<or>
      oid x = fresh_oid (client_of 18)) []"
    by simp
  from acquire_defaults [OF worker_B_valid free, of 5000]
  obtain d where d: "fst (post_lock 5000 (client_of 18)
            (lock_body_of ''db-migration-01'' ''worker-B'' None) []) = [] @ [d]"
      "status (snd (post_lock 5000 (client_of 18)
            (lock_body_of ''db-migration-01'' ''worker-B'' None) [])) = 201"
      "resourceName d = ''db-migration-01''" "lockedBy d = ''worker-B''"
      "lockedAt d = 5000" "lockDuration d = 300" "expiresAt d = 5000 + lockDuration d * 1000"
      "lockType d = ''exclusive''" "purpose (metadata d) = []" "sessionId (metadata d) = []"
    by (auto simp: lock_body_of_def)
  then have "expiresAt d = 305000" by simp
  with d worker_B_valid show ?thesis
    by auto
qed

end
